theory Spec2Isabelle
  imports Complex_Main "HOL-Library.Word"
begin

unbundle bit_operations_syntax

section \<open>Go values and library operations used by the updater\<close>

text \<open>
  Go strings are byte strings: \<open>string\<close>. A \<open>[]byte\<close> is a list of 8-bit words, an
  \<open>int64\<close> a 64-bit word read with \<open>sint\<close>. A \<open>float64\<close> is the rational it denotes,
  or one of the three special values. A Go panic is a value of type \<open>panic\<close>; a function
  that may panic returns \<open>panic + 'a\<close>.
\<close>

type_synonym byte = "8 word"

datatype float64 = Finite rat | PosInf | NegInf | NaN

datatype panic =
    AlreadyRegistered string
  | InconsistentCardinality
  | NilPointerDereference

definition andThen :: "panic + 'a \<Rightarrow> ('a \<Rightarrow> panic + 'b) \<Rightarrow> panic + 'b" where
  "andThen r f = (case r of Inl p \<Rightarrow> Inl p | Inr x \<Rightarrow> f x)"

subsection \<open>encoding/hex\<close>

definition hextable :: string where
  "hextable = ''0123456789abcdef''"

text \<open>\<open>hex.EncodeToString\<close>: two lower-case digits per byte, high nibble first.\<close>

fun EncodeToString :: "byte list \<Rightarrow> string" where
  "EncodeToString [] = []"
| "EncodeToString (v # src) =
     hextable ! unat (drop_bit 4 v) # hextable ! unat (v AND 0x0f) # EncodeToString src"

subsection \<open>fmt.Sprintf("%d", n) on an int64\<close>

fun decimal :: "nat \<Rightarrow> string" where
  "decimal n =
     (if n < 10 then [''0123456789'' ! n]
      else decimal (n div 10) @ [''0123456789'' ! (n mod 10)])"

declare decimal.simps [simp del]

definition Sprintf_d :: "64 word \<Rightarrow> string" where
  "Sprintf_d n =
     (if sint n < 0 then CHR ''-'' # decimal (nat (- sint n)) else decimal (nat (sint n)))"

subsection \<open>common.Address and chain.Info\<close>

text \<open>
  The metrics code reads an address only through its method \<open>Hex()\<close>, and the beacon's
  public key and period only through their methods \<open>String()\<close>; \<open>HashString()\<close> is a
  method of \<open>chain.Info\<close>. These renderings are computed by the go-ethereum and drand
  libraries; the model carries their results.
\<close>

datatype Address = Address (Hex: string)

record chain_Info =
  HashString :: string
  PublicKey_String :: string
  Period_String :: string
  Scheme :: string
  GenesisTime :: "64 word"
  GenesisSeed :: "byte list"

section \<open>The Prometheus default registry\<close>

text \<open>
  \<open>promauto.NewGaugeVec\<close> and \<open>promauto.NewCounterVec\<close> create a collector and register
  it with \<open>prometheus.DefaultRegisterer\<close>, a variable of the package, through
  \<open>MustRegister\<close>, which panics when the name is taken. The registry is a store from
  fully-qualified names to collectors; a \<open>*GaugeVec\<close> or \<open>*CounterVec\<close> held by a
  \<open>Metrics\<close> value is the key of its collector in that store. A gauge child holds a
  \<open>float64\<close>; a counter child that is only ever incremented holds the \<open>uint64\<close> count
  of its \<open>Inc\<close> calls. Label values are byte strings here: the library's check that
  they are valid UTF-8 is not modelled (every label value of this program is a
  hexadecimal, decimal or library rendering).
\<close>

datatype collector =
    GaugeVec string "string list" "string list \<rightharpoonup> float64"
  | CounterVec string "string list" "string list \<rightharpoonup> 64 word"

type_synonym registry = "string \<rightharpoonup> collector"

record Opts =
  Name :: string
  Help :: string

definition promauto_NewGaugeVec ::
  "Opts \<Rightarrow> string list \<Rightarrow> registry \<Rightarrow> panic + (string \<times> registry)" where
  "promauto_NewGaugeVec opts labelNames reg =
     (case reg (Name opts) of
        Some c \<Rightarrow> Inl (AlreadyRegistered (Name opts))
      | None \<Rightarrow> Inr (Name opts, reg(Name opts \<mapsto> GaugeVec (Help opts) labelNames Map.empty)))"

definition promauto_NewCounterVec ::
  "Opts \<Rightarrow> string list \<Rightarrow> registry \<Rightarrow> panic + (string \<times> registry)" where
  "promauto_NewCounterVec opts labelNames reg =
     (case reg (Name opts) of
        Some c \<Rightarrow> Inl (AlreadyRegistered (Name opts))
      | None \<Rightarrow> Inr (Name opts, reg(Name opts \<mapsto> CounterVec (Help opts) labelNames Map.empty)))"

text \<open>
  \<open>g.WithLabelValues(lvs...).Set(v)\<close>: panics when the number of values is not the
  number of label names, and when \<open>g\<close> is not a gauge vector (a nil pointer).
\<close>

definition WithLabelValues_Set ::
  "string \<Rightarrow> string list \<Rightarrow> float64 \<Rightarrow> registry \<Rightarrow> panic + registry" where
  "WithLabelValues_Set g lvs v reg =
     (case reg g of
        Some (GaugeVec help labelNames children) \<Rightarrow>
          if length lvs \<noteq> length labelNames then Inl InconsistentCardinality
          else Inr (reg(g \<mapsto> GaugeVec help labelNames (children(lvs \<mapsto> v))))
      | _ \<Rightarrow> Inl NilPointerDereference)"

text \<open>\<open>c.WithLabelValues(lvs...).Inc()\<close>: a new child starts at 0; the count wraps.\<close>

definition WithLabelValues_Inc ::
  "string \<Rightarrow> string list \<Rightarrow> registry \<Rightarrow> panic + registry" where
  "WithLabelValues_Inc c lvs reg =
     (case reg c of
        Some (CounterVec help labelNames children) \<Rightarrow>
          if length lvs \<noteq> length labelNames then Inl InconsistentCardinality
          else Inr (reg(c \<mapsto> CounterVec help labelNames
                 (children(lvs \<mapsto> (case children lvs of None \<Rightarrow> 1 | Some n \<Rightarrow> n + 1)))))
      | _ \<Rightarrow> Inl NilPointerDereference)"

section \<open>metrics.go\<close>

definition labelChainHash :: string where "labelChainHash = ''chain_hash''"
definition labelChainID :: string where "labelChainID = ''chain_id''"
definition labelOracleAddress :: string where "labelOracleAddress = ''oracle_address''"
definition labelUpdaterAddress :: string where "labelUpdaterAddress = ''updater_address''"
definition labelPublicKey :: string where "labelPublicKey = ''public_key''"
definition labelID :: string where "labelID = ''id''"
definition labelPeriod :: string where "labelPeriod = ''period''"
definition labelScheme :: string where "labelScheme = ''scheme''"
definition labelGenesisTime :: string where "labelGenesisTime = ''genesis_time''"
definition labelGenesisSeed :: string where "labelGenesisSeed = ''genesis_seed''"

definition drandRoundOpts :: Opts where
  "drandRoundOpts = \<lparr>Name = ''drand_round_number_network'',
     Help = ''Current round number from the Drand network''\<rparr>"

definition oracleRoundOpts :: Opts where
  "oracleRoundOpts = \<lparr>Name = ''drand_round_number_oracle'',
     Help = ''Current round number processed by the Oracle''\<rparr>"

definition successOpts :: Opts where
  "successOpts = \<lparr>Name = ''drand_set_randomness_success_total'',
     Help = ''Total number of successful SetRandomness transactions''\<rparr>"

definition failureOpts :: Opts where
  "failureOpts = \<lparr>Name = ''drand_set_randomness_failure_total'',
     Help = ''Total number of failed SetRandomness transactions''\<rparr>"

definition drandInfoOpts :: Opts where
  "drandInfoOpts = \<lparr>Name = ''drand_network_info'',
     Help = ''Static information about the Drand network configuration''\<rparr>"

definition updaterBalanceOpts :: Opts where
  "updaterBalanceOpts = \<lparr>Name = ''drand_updater_balance_wei'',
     Help = ''Current balance of the updater address in wei''\<rparr>"

definition drandInfoLabels :: "string list" where
  "drandInfoLabels =
     [labelChainHash, labelPublicKey, labelPeriod, labelScheme, labelGenesisTime,
      labelGenesisSeed]"

definition drandInfoValues :: "string \<Rightarrow> chain_Info \<Rightarrow> string list" where
  "drandInfoValues h drandInfo' =
     [h, PublicKey_String drandInfo', Period_String drandInfo', Scheme drandInfo',
      Sprintf_d (GenesisTime drandInfo'), EncodeToString (GenesisSeed drandInfo')]"

subsection \<open>The later version of the file (lines 125 to 270)\<close>

record Metrics =
  drandRoundTotal :: string
  oracleRoundTotal :: string
  setRandomnessSuccessTotal :: string
  setRandomnessFailureTotal :: string
  updaterBalance :: string
  drandInfo :: string
  chainHash :: string
  chainID :: "64 word"
  oracleAddress :: Address
  updaterAddress :: Address

definition NewMetrics ::
  "64 word \<Rightarrow> Address \<Rightarrow> Address \<Rightarrow> chain_Info \<Rightarrow> registry \<Rightarrow> panic + (Metrics \<times> registry)"
  where
  "NewMetrics chainID' oracleAddress' updaterAddress' drandInfo' reg =
     andThen (promauto_NewGaugeVec drandRoundOpts [labelChainHash] reg) (\<lambda>(g1, reg1).
     andThen (promauto_NewGaugeVec oracleRoundOpts [labelChainID, labelOracleAddress] reg1)
       (\<lambda>(g2, reg2).
     andThen (promauto_NewCounterVec successOpts [labelChainID, labelOracleAddress] reg2)
       (\<lambda>(c1, reg3).
     andThen (promauto_NewCounterVec failureOpts [labelChainID, labelOracleAddress] reg3)
       (\<lambda>(c2, reg4).
     andThen (promauto_NewGaugeVec drandInfoOpts drandInfoLabels reg4) (\<lambda>(g3, reg5).
     andThen (WithLabelValues_Set g3
                (drandInfoValues (HashString drandInfo') drandInfo') (Finite 1) reg5)
       (\<lambda>reg6.
     andThen (promauto_NewGaugeVec updaterBalanceOpts
                [labelChainID, labelOracleAddress, labelUpdaterAddress] reg6) (\<lambda>(g4, reg7).
     Inr (\<lparr>drandRoundTotal = g1, oracleRoundTotal = g2, setRandomnessSuccessTotal = c1,
           setRandomnessFailureTotal = c2, updaterBalance = g4, drandInfo = g3,
           chainHash = HashString drandInfo', chainID = chainID',
           oracleAddress = oracleAddress', updaterAddress = updaterAddress'\<rparr>,
          reg7))))))))"

definition SetDrandRound :: "Metrics \<Rightarrow> float64 \<Rightarrow> registry \<Rightarrow> panic + registry" where
  "SetDrandRound m round' reg = WithLabelValues_Set (drandRoundTotal m) [chainHash m] round' reg"

definition SetOracleRound :: "Metrics \<Rightarrow> float64 \<Rightarrow> registry \<Rightarrow> panic + registry" where
  "SetOracleRound m round' reg =
     WithLabelValues_Set (oracleRoundTotal m)
       [Sprintf_d (chainID m), Hex (oracleAddress m)] round' reg"

definition IncSetRandomnessSuccess :: "Metrics \<Rightarrow> registry \<Rightarrow> panic + registry" where
  "IncSetRandomnessSuccess m reg =
     WithLabelValues_Inc (setRandomnessSuccessTotal m)
       [Sprintf_d (chainID m), Hex (oracleAddress m)] reg"

definition IncSetRandomnessFailure :: "Metrics \<Rightarrow> registry \<Rightarrow> panic + registry" where
  "IncSetRandomnessFailure m reg =
     WithLabelValues_Inc (setRandomnessFailureTotal m)
       [Sprintf_d (chainID m), Hex (oracleAddress m)] reg"

subsection \<open>math/big: \<open>new(big.Float).SetString\<close> and \<open>Float64\<close>\<close>

text \<open>
  \<open>SetString\<close> returns a pointer and a success flag; on failure the pointer is nil
  (\<open>None\<close>). The receiver is a new \<open>Float\<close>, so the precision is 64 bits and the
  rounding mode is to nearest, ties to even.

  The number syntax of \<open>math/big\<close> is embedded on two fragments:
  \<^item> a non-empty string of decimal digits, which is what the decimal rendering of a
    non-negative balance is: the value is the integer, rounded to 64 bits;
  \<^item> the empty string, and any string that starts with a character that cannot start a
    number (neither a sign, a digit, a point nor an underscore) and is not \<open>Inf\<close> or
    \<open>inf\<close>: the parse fails.
  On every other string (signs, fractions, exponents, base prefixes, separators,
  infinities) the embedding gives no answer: \<open>SetString\<close> returns \<open>None\<close> at the outer
  level there. Accordingly a \<open>*big.Float\<close> of the model is a non-negative integer.
\<close>

datatype big_Float = IntFloat nat

fun bitlen :: "nat \<Rightarrow> nat" where
  "bitlen n = (if n = 0 then 0 else Suc (bitlen (n div 2)))"

declare bitlen.simps [simp del]

text \<open>Rounding an integer to \<open>p\<close> significant bits, to nearest, ties to even.\<close>

definition roundToEven :: "nat \<Rightarrow> nat \<Rightarrow> nat" where
  "roundToEven p n =
     (if bitlen n \<le> p then n
      else let e = bitlen n - p; q = n div 2 ^ e; r = n mod 2 ^ e; half = 2 ^ (e - 1)
           in (if half < r \<or> (r = half \<and> odd q) then q + 1 else q) * 2 ^ e)"

definition isDecimalDigit :: "char \<Rightarrow> bool" where
  "isDecimalDigit c = (c \<in> set ''0123456789'')"

definition digitsValue :: "string \<Rightarrow> nat" where
  "digitsValue s = foldl (\<lambda>acc c. acc * 10 + (of_char c - 48)) 0 s"

definition MaxExp :: nat where
  "MaxExp = 2147483647"

definition SetString :: "string \<Rightarrow> (big_Float option \<times> bool) option" where
  "SetString s =
     (if s = [] then Some (None, False)
      else if list_all isDecimalDigit s then
        (if bitlen (digitsValue s) \<le> MaxExp
         then Some (Some (IntFloat (roundToEven 64 (digitsValue s))), True)
         else Some (None, False))
      else if hd s \<notin> set ''+-._0123456789'' \<and> s \<noteq> ''Inf'' \<and> s \<noteq> ''inf''
        then Some (None, False)
      else None)"

text \<open>
  \<open>x.Float64()\<close> reads \<open>x.form\<close> first: on a nil receiver that is a nil pointer
  dereference. Otherwise the value is rounded to 53 bits, and is \<open>+Inf\<close> when the
  rounded value needs an exponent above 1023. The accuracy, the second result, is
  discarded by the only caller and left out.
\<close>

definition Float64 :: "big_Float option \<Rightarrow> panic + float64" where
  "Float64 x =
     (case x of
        None \<Rightarrow> Inl NilPointerDereference
      | Some (IntFloat n) \<Rightarrow>
          (let r = roundToEven 53 n
           in if 1024 < bitlen r then Inr PosInf else Inr (Finite (of_nat r))))"

text \<open>
  \<open>SetUpdaterBalance\<close> ignores the success flag of \<open>SetString\<close>. The outer \<open>option\<close>
  is \<open>None\<close> exactly where the embedding of \<open>SetString\<close> gives no answer.
\<close>

definition SetUpdaterBalance ::
  "Metrics \<Rightarrow> string \<Rightarrow> registry \<Rightarrow> (panic + registry) option" where
  "SetUpdaterBalance m wei reg =
     (case SetString wei of
        None \<Rightarrow> None
      | Some (balance, ok) \<Rightarrow>
          Some (andThen (Float64 balance) (\<lambda>b.
            WithLabelValues_Set (updaterBalance m)
              [Sprintf_d (chainID m), Hex (oracleAddress m), Hex (updaterAddress m)] b reg)))"

subsection \<open>The earlier version of the file (lines 1 to 124)\<close>

record Metrics_v1 =
  drandRoundTotal_v1 :: string
  oracleRoundTotal_v1 :: string
  setRandomnessSuccessTotal_v1 :: string
  setRandomnessFailureTotal_v1 :: string
  drandInfo_v1 :: string
  chainHash_v1 :: string
  chainID_v1 :: "64 word"
  oracleAddress_v1 :: Address

definition NewMetrics_v1 ::
  "64 word \<Rightarrow> Address \<Rightarrow> chain_Info \<Rightarrow> registry \<Rightarrow> panic + (Metrics_v1 \<times> registry)"
  where
  "NewMetrics_v1 chainID' oracleAddress' drandInfo' reg =
     andThen (promauto_NewGaugeVec drandRoundOpts [labelChainHash] reg) (\<lambda>(g1, reg1).
     andThen (promauto_NewGaugeVec oracleRoundOpts [labelChainID, labelOracleAddress] reg1)
       (\<lambda>(g2, reg2).
     andThen (promauto_NewCounterVec successOpts [labelChainID, labelOracleAddress] reg2)
       (\<lambda>(c1, reg3).
     andThen (promauto_NewCounterVec failureOpts [labelChainID, labelOracleAddress] reg3)
       (\<lambda>(c2, reg4).
     andThen (promauto_NewGaugeVec drandInfoOpts drandInfoLabels reg4) (\<lambda>(g3, reg5).
     andThen (WithLabelValues_Set g3
                (drandInfoValues (HashString drandInfo') drandInfo') (Finite 1) reg5)
       (\<lambda>reg6.
     Inr (\<lparr>drandRoundTotal_v1 = g1, oracleRoundTotal_v1 = g2,
           setRandomnessSuccessTotal_v1 = c1, setRandomnessFailureTotal_v1 = c2,
           drandInfo_v1 = g3, chainHash_v1 = HashString drandInfo',
           chainID_v1 = chainID', oracleAddress_v1 = oracleAddress'\<rparr>,
          reg6)))))))"

definition SetDrandRound_v1 :: "Metrics_v1 \<Rightarrow> float64 \<Rightarrow> registry \<Rightarrow> panic + registry" where
  "SetDrandRound_v1 m round' reg =
     WithLabelValues_Set (drandRoundTotal_v1 m) [chainHash_v1 m] round' reg"

definition SetOracleRound_v1 :: "Metrics_v1 \<Rightarrow> float64 \<Rightarrow> registry \<Rightarrow> panic + registry" where
  "SetOracleRound_v1 m round' reg =
     WithLabelValues_Set (oracleRoundTotal_v1 m)
       [Sprintf_d (chainID_v1 m), Hex (oracleAddress_v1 m)] round' reg"

definition IncSetRandomnessSuccess_v1 :: "Metrics_v1 \<Rightarrow> registry \<Rightarrow> panic + registry" where
  "IncSetRandomnessSuccess_v1 m reg =
     WithLabelValues_Inc (setRandomnessSuccessTotal_v1 m)
       [Sprintf_d (chainID_v1 m), Hex (oracleAddress_v1 m)] reg"

definition IncSetRandomnessFailure_v1 :: "Metrics_v1 \<Rightarrow> registry \<Rightarrow> panic + registry" where
  "IncSetRandomnessFailure_v1 m reg =
     WithLabelValues_Inc (setRandomnessFailureTotal_v1 m)
       [Sprintf_d (chainID_v1 m), Hex (oracleAddress_v1 m)] reg"

subsection \<open>Callers of the shared interface\<close>

text \<open>
  A caller of either version constructs the metrics once and then makes a sequence of
  calls of the four methods that both versions have.
\<close>

datatype update = DrandRound float64 | OracleRound float64 | Success | Failure

fun call :: "Metrics \<Rightarrow> update \<Rightarrow> registry \<Rightarrow> panic + registry" where
  "call m (DrandRound x) reg = SetDrandRound m x reg"
| "call m (OracleRound x) reg = SetOracleRound m x reg"
| "call m Success reg = IncSetRandomnessSuccess m reg"
| "call m Failure reg = IncSetRandomnessFailure m reg"

fun call_v1 :: "Metrics_v1 \<Rightarrow> update \<Rightarrow> registry \<Rightarrow> panic + registry" where
  "call_v1 m (DrandRound x) reg = SetDrandRound_v1 m x reg"
| "call_v1 m (OracleRound x) reg = SetOracleRound_v1 m x reg"
| "call_v1 m Success reg = IncSetRandomnessSuccess_v1 m reg"
| "call_v1 m Failure reg = IncSetRandomnessFailure_v1 m reg"

fun calls :: "Metrics \<Rightarrow> update list \<Rightarrow> registry \<Rightarrow> panic + registry" where
  "calls m [] reg = Inr reg"
| "calls m (u # us) reg = andThen (call m u reg) (calls m us)"

fun calls_v1 :: "Metrics_v1 \<Rightarrow> update list \<Rightarrow> registry \<Rightarrow> panic + registry" where
  "calls_v1 m [] reg = Inr reg"
| "calls_v1 m (u # us) reg = andThen (call_v1 m u reg) (calls_v1 m us)"

definition session ::
  "64 word \<Rightarrow> Address \<Rightarrow> Address \<Rightarrow> chain_Info \<Rightarrow> update list \<Rightarrow> registry \<Rightarrow> panic + registry"
  where
  "session c oa ua info us reg =
     andThen (NewMetrics c oa ua info reg) (\<lambda>(m, reg'). calls m us reg')"

definition session_v1 ::
  "64 word \<Rightarrow> Address \<Rightarrow> chain_Info \<Rightarrow> update list \<Rightarrow> registry \<Rightarrow> panic + registry"
  where
  "session_v1 c oa info us reg =
     andThen (NewMetrics_v1 c oa info reg) (\<lambda>(m, reg'). calls_v1 m us reg')"

text \<open>The registry without the collector that only the later version has.\<close>

definition withoutBalance :: "registry \<Rightarrow> registry" where
  "withoutBalance reg = reg(Name updaterBalanceOpts := None)"

text \<open>The names that \<open>NewMetrics\<close> registers, in the order of registration.\<close>

definition metricNames :: "string list" where
  "metricNames =
     [Name drandRoundOpts, Name oracleRoundOpts, Name successOpts, Name failureOpts,
      Name drandInfoOpts, Name updaterBalanceOpts]"

text \<open>Reading a gauge child, as a scrape of the registry does.\<close>

definition gaugeValue :: "registry \<Rightarrow> string \<Rightarrow> string list \<Rightarrow> float64 option" where
  "gaugeValue reg g lvs =
     (case reg g of Some (GaugeVec help labelNames children) \<Rightarrow> children lvs | _ \<Rightarrow> None)"

subsection \<open>What a construction leaves behind\<close>

text \<open>
  The \<open>Metrics\<close> value and the registry after a construction that did not panic,
  written out: \<open>NewMetrics\<close> is proved below to return exactly these.
\<close>

definition metricsOf :: "64 word \<Rightarrow> Address \<Rightarrow> Address \<Rightarrow> chain_Info \<Rightarrow> Metrics" where
  "metricsOf c oa ua info =
     \<lparr>drandRoundTotal = Name drandRoundOpts, oracleRoundTotal = Name oracleRoundOpts,
      setRandomnessSuccessTotal = Name successOpts,
      setRandomnessFailureTotal = Name failureOpts,
      updaterBalance = Name updaterBalanceOpts, drandInfo = Name drandInfoOpts,
      chainHash = HashString info, chainID = c, oracleAddress = oa, updaterAddress = ua\<rparr>"

definition registryAfter_v1 :: "chain_Info \<Rightarrow> registry \<Rightarrow> registry" where
  "registryAfter_v1 info reg =
     reg(Name drandRoundOpts \<mapsto> GaugeVec (Help drandRoundOpts) [labelChainHash] Map.empty,
         Name oracleRoundOpts \<mapsto>
           GaugeVec (Help oracleRoundOpts) [labelChainID, labelOracleAddress] Map.empty,
         Name successOpts \<mapsto>
           CounterVec (Help successOpts) [labelChainID, labelOracleAddress] Map.empty,
         Name failureOpts \<mapsto>
           CounterVec (Help failureOpts) [labelChainID, labelOracleAddress] Map.empty,
         Name drandInfoOpts \<mapsto>
           GaugeVec (Help drandInfoOpts) drandInfoLabels
             [drandInfoValues (HashString info) info \<mapsto> Finite 1])"

definition registryAfter :: "chain_Info \<Rightarrow> registry \<Rightarrow> registry" where
  "registryAfter info reg =
     (registryAfter_v1 info reg)
       (Name updaterBalanceOpts \<mapsto>
          GaugeVec (Help updaterBalanceOpts)
            [labelChainID, labelOracleAddress, labelUpdaterAddress] Map.empty)"

definition metricsOf_v1 :: "64 word \<Rightarrow> Address \<Rightarrow> chain_Info \<Rightarrow> Metrics_v1" where
  "metricsOf_v1 c oa info =
     \<lparr>drandRoundTotal_v1 = Name drandRoundOpts, oracleRoundTotal_v1 = Name oracleRoundOpts,
      setRandomnessSuccessTotal_v1 = Name successOpts,
      setRandomnessFailureTotal_v1 = Name failureOpts,
      drandInfo_v1 = Name drandInfoOpts,
      chainHash_v1 = HashString info, chainID_v1 = c, oracleAddress_v1 = oa\<rparr>"

text \<open>A beacon, two addresses and the process they start, for concrete runs.\<close>

definition exampleInfo :: chain_Info where
  "exampleInfo =
     \<lparr>HashString = ''8990e7a9'', PublicKey_String = ''868f005e'', Period_String = ''30s'',
      Scheme = ''pedersen-bls-chained'', GenesisTime = 1595431050, GenesisSeed = [0x17, 0x6f]\<rparr>"

definition exampleOracle :: Address where
  "exampleOracle = Address ''0x00000000000000000000000000000000000000AA''"

definition exampleUpdater :: Address where
  "exampleUpdater = Address ''0x00000000000000000000000000000000000000Bb''"

definition exampleMetrics :: Metrics where
  "exampleMetrics = metricsOf 1 exampleOracle exampleUpdater exampleInfo"

definition exampleRegistry :: registry where
  "exampleRegistry = registryAfter exampleInfo Map.empty"

text \<open>
  A gauge reading \<open>v\<close> is within \<open>tol\<close> of \<open>x\<close>; a missing child or a value that is
  not finite is within no tolerance.
\<close>

definition withinTolerance :: "rat \<Rightarrow> float64 option \<Rightarrow> rat \<Rightarrow> bool" where
  "withinTolerance tol v x = (case v of Some (Finite q) \<Rightarrow> \<bar>q - x\<bar> \<le> tol | _ \<Rightarrow> False)"

text \<open>
  The registry holds the five collectors that the methods write to, each of its kind and
  with its number of label names.
\<close>

definition isGaugeVec :: "registry \<Rightarrow> string \<Rightarrow> nat \<Rightarrow> bool" where
  "isGaugeVec reg g k =
     (case reg g of Some (GaugeVec help labelNames children) \<Rightarrow> length labelNames = k
      | _ \<Rightarrow> False)"

definition isCounterVec :: "registry \<Rightarrow> string \<Rightarrow> nat \<Rightarrow> bool" where
  "isCounterVec reg g k =
     (case reg g of Some (CounterVec help labelNames children) \<Rightarrow> length labelNames = k
      | _ \<Rightarrow> False)"

definition registered :: "registry \<Rightarrow> bool" where
  "registered reg =
     (isGaugeVec reg (Name drandRoundOpts) 1 \<and> isGaugeVec reg (Name oracleRoundOpts) 2
      \<and> isCounterVec reg (Name successOpts) 2 \<and> isCounterVec reg (Name failureOpts) 2
      \<and> isGaugeVec reg (Name updaterBalanceOpts) 3)"

section \<open>main.go\<close>

subsection \<open>Library operations on strings and keys\<close>

text \<open>\<open>strings.HasPrefix\<close> and \<open>strings.TrimPrefix\<close>.\<close>

definition HasPrefix :: "string \<Rightarrow> string \<Rightarrow> bool" where
  "HasPrefix s prefix = (length prefix \<le> length s \<and> take (length prefix) s = prefix)"

definition TrimPrefix :: "string \<Rightarrow> string \<Rightarrow> string" where
  "TrimPrefix s prefix = (if HasPrefix s prefix then drop (length prefix) s else s)"

text \<open>
  \<open>hex.DecodeString\<close>: pairs of hexadecimal digits of either case; the first invalid
  character is reported, an odd length after that. The bytes decoded before the error
  are returned with it.
\<close>

datatype hex_error = InvalidByteError char | ErrLength

definition fromHexChar :: "char \<Rightarrow> nat option" where
  "fromHexChar c =
     (let n = (of_char c :: nat)
      in if 48 \<le> n \<and> n \<le> 57 then Some (n - 48)
         else if 97 \<le> n \<and> n \<le> 102 then Some (n - 87)
         else if 65 \<le> n \<and> n \<le> 70 then Some (n - 55)
         else None)"

fun DecodeString :: "string \<Rightarrow> byte list \<times> hex_error option" where
  "DecodeString (p # q # src) =
     (case fromHexChar p of
        None \<Rightarrow> ([], Some (InvalidByteError p))
      | Some a \<Rightarrow>
          (case fromHexChar q of
             None \<Rightarrow> ([], Some (InvalidByteError q))
           | Some b \<Rightarrow>
               (case DecodeString src of (dst, err) \<Rightarrow> (of_nat (a * 16 + b) # dst, err))))"
| "DecodeString [p] =
     (case fromHexChar p of
        None \<Rightarrow> ([], Some (InvalidByteError p))
      | Some a \<Rightarrow> ([], Some ErrLength))"
| "DecodeString [] = ([], None)"

text \<open>
  \<open>crypto.HexToECDSA\<close> of go-ethereum: the key is 32 bytes, read big-endian as the
  secret scalar, which must lie strictly between 0 and the order of secp256k1. The
  public key, and with it the address, is computed from the scalar alone.
\<close>

datatype key_error =
    InvalidHexCharacter char
  | InvalidHexData
  | InvalidLength
  | NotBelowN
  | ZeroOrNegative

datatype PrivateKey = PrivateKey (scalar: nat)

definition secp256k1N :: nat where
  "secp256k1N = 0xFFFFFFFFFFFFFFFFFFFFFFFFFFFFFFFEBAAEDCE6AF48A03BBFD25E8CD0364141"

definition SetBytes :: "byte list \<Rightarrow> nat" where
  "SetBytes d = foldl (\<lambda>acc b. acc * 256 + unat b) 0 d"

definition ToECDSA :: "byte list \<Rightarrow> key_error + PrivateKey" where
  "ToECDSA d =
     (if 8 * length d \<noteq> 256 then Inl InvalidLength
      else if secp256k1N \<le> SetBytes d then Inl NotBelowN
      else if SetBytes d = 0 then Inl ZeroOrNegative
      else Inr (PrivateKey (SetBytes d)))"

definition HexToECDSA :: "string \<Rightarrow> key_error + PrivateKey" where
  "HexToECDSA hexkey =
     (case DecodeString hexkey of
        (b, Some (InvalidByteError c)) \<Rightarrow> Inl (InvalidHexCharacter c)
      | (b, Some ErrLength) \<Rightarrow> Inl InvalidHexData
      | (b, None) \<Rightarrow> ToECDSA b)"

subsection \<open>Start-up\<close>

text \<open>
  The fields of \<open>config.Config\<close> that decide the control flow of \<open>main\<close>. What the
  process finds outside itself is a \<open>world\<close>: the result of \<open>envconfig.Process\<close>
  (\<open>None\<close> when it returns an error) and whether \<open>client.New\<close>, \<open>ethclient.Dial\<close>,
  \<open>binding.NewBinding\<close> and \<open>service.NewUpdater\<close> return without an error.
\<close>

record Config =
  ChainHash :: string
  SignerPrivateKey :: string
  SenderPrivateKey :: string

record world =
  envconfig_Process :: "Config option"
  client_New :: bool
  ethclient_Dial :: bool
  binding_NewBinding :: bool
  service_NewUpdater :: bool

datatype task = UpdaterLoop | HealthServer | MetricsServer

text \<open>
  What \<open>main\<close> does, in order: \<open>Info\<close> is a log line, \<open>Fatal\<close> is \<open>log.Fatal\<close>, which
  writes the line and exits the process with status 1, and \<open>Go\<close> is \<open>errGroup.Go\<close>,
  which starts a task.
\<close>

datatype event = Info string | Fatal string | Go task

definition parseKey :: "string \<Rightarrow> key_error + PrivateKey" where
  "parseKey k = HexToECDSA (TrimPrefix k ''0x'')"

definition startup :: "world \<Rightarrow> event list" where
  "startup w =
     (case envconfig_Process w of
        None \<Rightarrow> [Fatal ''Failed to process environment variables'']
      | Some cfg \<Rightarrow>
     (case DecodeString (ChainHash cfg) of
        (chainHash', Some err) \<Rightarrow> [Fatal ''Failed to decode chain hash'']
      | (chainHash', None) \<Rightarrow>
     Info ''Initializing drand client...'' #
     (if \<not> client_New w then [Fatal ''error creating client''] else
     Info ''Initializing RPC client...'' #
     (if \<not> ethclient_Dial w then [Fatal ''error creating rpc client''] else
     Info ''Initializing DrandOracle contract binding...'' #
     (if \<not> binding_NewBinding w then [Fatal ''error creating binding''] else
     Info ''Initializing signer...'' #
     (case parseKey (SignerPrivateKey cfg) of
        Inl err \<Rightarrow> [Fatal ''error parsing private key'']
      | Inr signerPrivateKey \<Rightarrow>
     Info ''Signer initialized'' #
     Info ''Initializing sender...'' #
     (case parseKey (SenderPrivateKey cfg) of
        Inl err \<Rightarrow> [Fatal ''error parsing private key'']
      | Inr senderPrivateKey \<Rightarrow>
     Info ''Sender initialized'' #
     Info ''Initializing updater service...'' #
     (if \<not> service_NewUpdater w then [Fatal ''error creating updater''] else
     [Info ''Starting services...'', Go UpdaterLoop, Go HealthServer, Go MetricsServer]
     ))))))))"

fun isFatal :: "event \<Rightarrow> bool" where
  "isFatal (Fatal msg) = True"
| "isFatal e = False"

definition fatal :: "event list \<Rightarrow> bool" where
  "fatal tr = list_ex isFatal tr"

text \<open>
  The start-up failures that come from the configuration and the key material: an
  environment that \<open>envconfig\<close> rejects, a chain hash that is not hexadecimal, a signer
  or sender key that does not parse.
\<close>

definition configError :: "world \<Rightarrow> bool" where
  "configError w =
     (case envconfig_Process w of
        None \<Rightarrow> True
      | Some cfg \<Rightarrow>
          snd (DecodeString (ChainHash cfg)) \<noteq> None
          \<or> isl (parseKey (SignerPrivateKey cfg))
          \<or> isl (parseKey (SenderPrivateKey cfg)))"

text \<open>The start-up failures that come from creating the clients and the updater.\<close>

definition collaboratorError :: "world \<Rightarrow> bool" where
  "collaboratorError w =
     (\<not> client_New w \<or> \<not> ethclient_Dial w \<or> \<not> binding_NewBinding w \<or> \<not> service_NewUpdater w)"

subsection \<open>The three tasks of the error group\<close>

text \<open>
  \<open>errgroup.WithContext\<close> gives a group and a context. A function passed to \<open>Go\<close>
  runs in its own goroutine; the first one to return a non-nil error stores it in the
  group and cancels the context. \<open>Wait\<close> blocks until all of them have returned,
  cancels the context and returns the stored error; \<open>main\<close> then calls \<open>log.Fatal\<close>
  (exit status 1) if the error is non-nil and returns (exit status 0) otherwise.

  The goroutines interleave; a run of the process after start-up is a sequence of the
  following actions, each atomic:
  \<^item> \<open>UpdaterReturns r\<close>: \<open>updater.Start(ctx)\<close> returns \<open>r\<close>, and so does its task;
  \<^item> \<open>ListenAndServeReturns s e\<close>: \<open>ListenAndServe\<close> of server \<open>s\<close> returns the error
    \<open>e\<close> (it never returns nil); the task returns nil if \<open>e\<close> is
    \<open>http.ErrServerClosed\<close>, which the library returns only after \<open>Shutdown\<close>, and
    \<open>e\<close> otherwise;
  \<^item> \<open>CtxDone s\<close>: the goroutine of server \<open>s\<close> that waits on \<open>ctx.Done()\<close> wakes up
    and calls \<open>Shutdown\<close>;
  \<^item> \<open>Wait\<close>: \<open>errGroup.Wait\<close> returns and the process exits.
\<close>

datatype task_state = Running | Returned "string option"

record process =
  tasks :: "task \<Rightarrow> task_state"
  g_err :: "string option"
  ctx_done :: bool
  shutdown_called :: "task \<Rightarrow> bool"
  exit_status :: "nat option"






definition failed :: "process \<Rightarrow> bool" where
  "failed p =
     (list_ex (\<lambda>t. case tasks p t of Returned (Some e) \<Rightarrow> True | _ \<Rightarrow> False)
        [UpdaterLoop, HealthServer, MetricsServer])"





subsection \<open>The health check handler\<close>










section \<open>The Updater's catch-up\<close>










section \<open>The states that a run of the error group reaches\<close>



section \<open>Concrete worlds\<close>

text \<open>
  A configuration whose chain hash is hexadecimal and whose two keys are valid, one of
  them written with the prefix \<open>0x\<close>; a world in which every collaborator can be
  created; and the same world with an RPC endpoint that cannot be dialled.
\<close>

definition isHexString :: "string \<Rightarrow> bool" where
  "isHexString k = list_all (\<lambda>c. fromHexChar c \<noteq> None) k"

definition exampleKey :: string where
  "exampleKey = ''0000000000000000000000000000000000000000000000000000000000000001''"

definition exampleConfig :: Config where
  "exampleConfig =
     \<lparr>ChainHash = ''8990e7a9'',
      SignerPrivateKey = ''0x0000000000000000000000000000000000000000000000000000000000000001'',
      SenderPrivateKey = ''0000000000000000000000000000000000000000000000000000000000000002''\<rparr>"

definition exampleWorld :: world where
  "exampleWorld =
     \<lparr>envconfig_Process = Some exampleConfig, client_New = True, ethclient_Dial = True,
      binding_NewBinding = True, service_NewUpdater = True\<rparr>"

definition unreachableWorld :: world where
  "unreachableWorld = exampleWorld\<lparr>ethclient_Dial := False\<rparr>"

section \<open>Properties of the metrics\<close>

subsection \<open>Construction\<close>

lemmas label_defs =
  labelChainHash_def labelChainID_def labelOracleAddress_def labelUpdaterAddress_def
  labelPublicKey_def labelID_def labelPeriod_def labelScheme_def labelGenesisTime_def
  labelGenesisSeed_def

lemmas opts_defs =
  drandRoundOpts_def oracleRoundOpts_def successOpts_def failureOpts_def
  drandInfoOpts_def updaterBalanceOpts_def

lemmas registry_defs =
  andThen_def promauto_NewGaugeVec_def promauto_NewCounterVec_def WithLabelValues_Set_def
  drandInfoLabels_def drandInfoValues_def

lemma NewMetrics_fresh:
  assumes "\<forall>n \<in> set metricNames. reg n = None"
  shows "NewMetrics c oa ua info reg = Inr (metricsOf c oa ua info, registryAfter info reg)"
  using assms
  by (simp add: NewMetrics_def metricNames_def opts_defs registry_defs registryAfter_def
      registryAfter_v1_def metricsOf_def)

lemma NewMetrics_taken:
  assumes "\<exists>n \<in> set metricNames. reg n \<noteq> None"
  shows "\<exists>n \<in> set metricNames. NewMetrics c oa ua info reg = Inl (AlreadyRegistered n)"
  using assms
  by (auto simp add: NewMetrics_def metricNames_def opts_defs registry_defs
      split: option.splits)

lemma NewMetrics_Inr:
  assumes "NewMetrics c oa ua info reg = Inr (m, reg')"
  shows "m = metricsOf c oa ua info \<and> reg' = registryAfter info reg
         \<and> (\<forall>n \<in> set metricNames. reg n = None)"
proof (cases "\<forall>n \<in> set metricNames. reg n = None")
  case True
  with assms NewMetrics_fresh [OF True, of c oa ua info] show ?thesis by simp
next
  case False
  then have "\<exists>n \<in> set metricNames. reg n \<noteq> None" by blast
  from NewMetrics_taken [OF this, of c oa ua info] assms show ?thesis by auto
qed




lemma Set_other:
  "WithLabelValues_Set g lvs v reg = Inr reg' \<Longrightarrow> n \<noteq> g \<Longrightarrow> reg' n = reg n"
  by (auto simp add: WithLabelValues_Set_def split: option.splits collector.splits if_splits)

lemma Inc_other:
  "WithLabelValues_Inc g lvs reg = Inr reg' \<Longrightarrow> n \<noteq> g \<Longrightarrow> reg' n = reg n"
  by (auto simp add: WithLabelValues_Inc_def split: option.splits collector.splits if_splits)

lemma call_other:
  assumes "call (metricsOf c oa ua info) u reg = Inr reg'"
    and "n = Name drandInfoOpts \<or> n = Name updaterBalanceOpts \<or> n \<notin> set metricNames"
  shows "reg' n = reg n"
proof -
  have ne: "n \<noteq> Name drandRoundOpts" "n \<noteq> Name oracleRoundOpts" "n \<noteq> Name successOpts"
    "n \<noteq> Name failureOpts"
    using assms(2) by (auto simp add: metricNames_def opts_defs)
  show ?thesis
    using assms(1) ne
    by (cases u)
      (auto simp add: SetDrandRound_def SetOracleRound_def IncSetRandomnessSuccess_def
        IncSetRandomnessFailure_def metricsOf_def dest: Set_other Inc_other)
qed



subsection \<open>The network information gauge\<close>



subsection \<open>The registry is the one of the process\<close>




subsection \<open>The balance gauge\<close>

lemma digitsValue_1e18: "digitsValue ''1000000000000000000'' = 1000000000000000000"
  by (simp add: digitsValue_def)

lemma bitlen_1e18: "bitlen 1000000000000000000 = 60"
  by (simp add: bitlen.simps)

lemma SetString_1e18:
  "SetString ''1000000000000000000'' = Some (Some (IntFloat 1000000000000000000), True)"
  by (simp add: SetString_def isDecimalDigit_def digitsValue_1e18 bitlen_1e18 roundToEven_def
      MaxExp_def)

lemma Float64_1e18:
  "Float64 (Some (IntFloat 1000000000000000000)) = Inr (Finite 1000000000000000000)"
  by (simp add: Float64_def roundToEven_def bitlen_1e18 Let_def)

lemma SetString_abc: "SetString ''abc'' = Some (None, False)"
  by (simp add: SetString_def isDecimalDigit_def)

lemma SetUpdaterBalance_1e18:
  "SetUpdaterBalance (metricsOf c oa ua info) ''1000000000000000000'' (registryAfter info reg)
   = Some (Inr ((registryAfter info reg)(''drand_updater_balance_wei'' \<mapsto>
       GaugeVec ''Current balance of the updater address in wei''
         [''chain_id'', ''oracle_address'', ''updater_address'']
         [[Sprintf_d c, Hex oa, Hex ua] \<mapsto> Finite 1000000000000000000])))"
  by (simp add: SetUpdaterBalance_def SetString_1e18 Float64_1e18 andThen_def
      WithLabelValues_Set_def metricsOf_def registryAfter_def updaterBalanceOpts_def label_defs)

text \<open>
  A balance of \<open>1000000000000000000\<close> wei is recorded as the gauge value
  \<open>1000000000000000000\<close>: it is not within 999999999999999998 of 1.
\<close>

theorem balance_gauge_1e18_not_normalized:
  "gaugeValue
     (projr (the (SetUpdaterBalance exampleMetrics ''1000000000000000000'' exampleRegistry)))
     ''drand_updater_balance_wei''
     [''1'', ''0x00000000000000000000000000000000000000AA'',
      ''0x00000000000000000000000000000000000000Bb'']
   = Some (Finite 1000000000000000000)
   \<and> \<not> withinTolerance 999999999999999998
       (gaugeValue
          (projr (the (SetUpdaterBalance exampleMetrics ''1000000000000000000'' exampleRegistry)))
          ''drand_updater_balance_wei''
          [''1'', ''0x00000000000000000000000000000000000000AA'',
           ''0x00000000000000000000000000000000000000Bb''])
       1"
proof -
  have s: "Sprintf_d 1 = ''1''"
    by (simp add: Sprintf_d_def decimal.simps)
  have "gaugeValue
     (projr (the (SetUpdaterBalance exampleMetrics ''1000000000000000000'' exampleRegistry)))
     ''drand_updater_balance_wei''
     [''1'', ''0x00000000000000000000000000000000000000AA'',
      ''0x00000000000000000000000000000000000000Bb'']
   = Some (Finite 1000000000000000000)"
    by (simp add: exampleMetrics_def exampleRegistry_def SetUpdaterBalance_1e18 gaugeValue_def
        s exampleOracle_def exampleUpdater_def)
  then show ?thesis by (simp add: withinTolerance_def)
qed

text \<open>
  Claim C1, as the code has it. On a \<open>Metrics\<close> value that \<open>NewMetrics\<close> returned,
  \<open>SetUpdaterBalance\<close> of the string \<open>1000000000000000000\<close> returns and sets the child
  of \<open>drand_updater_balance_wei\<close> labelled with the chain id, the oracle address and the
  updater address to the \<open>float64\<close> 1000000000000000000, which is the balance in wei,
  exactly: the gauge is in wei, as its name and help text say.
\<close>

theorem SetUpdaterBalance_records_wei:
  assumes "NewMetrics c oa ua info reg0 = Inr (m, reg)"
  shows "\<exists>reg'. SetUpdaterBalance m ''1000000000000000000'' reg = Some (Inr reg')
     \<and> reg' ''drand_updater_balance_wei'' =
         Some (GaugeVec ''Current balance of the updater address in wei''
           [''chain_id'', ''oracle_address'', ''updater_address'']
           [[Sprintf_d c, Hex oa, Hex ua] \<mapsto> Finite 1000000000000000000])
     \<and> gaugeValue reg' ''drand_updater_balance_wei'' [Sprintf_d c, Hex oa, Hex ua]
         = Some (Finite 1000000000000000000)"
proof -
  from NewMetrics_Inr [OF assms]
  have m: "m = metricsOf c oa ua info" and reg: "reg = registryAfter info reg0"
    by simp_all
  show ?thesis
    unfolding m reg by (simp add: SetUpdaterBalance_1e18 gaugeValue_def)
qed

theorem SetUpdaterBalance_records_wei_witness:
  "NewMetrics 1 exampleOracle exampleUpdater exampleInfo Map.empty
     = Inr (exampleMetrics, exampleRegistry)
   \<and> (\<exists>reg'. SetUpdaterBalance exampleMetrics ''1000000000000000000'' exampleRegistry
         = Some (Inr reg')
     \<and> gaugeValue reg' ''drand_updater_balance_wei''
         [''1'', ''0x00000000000000000000000000000000000000AA'',
          ''0x00000000000000000000000000000000000000Bb'']
         = Some (Finite 1000000000000000000))"
proof -
  have h: "NewMetrics 1 exampleOracle exampleUpdater exampleInfo Map.empty
     = Inr (exampleMetrics, exampleRegistry)"
    unfolding exampleMetrics_def exampleRegistry_def by (rule NewMetrics_fresh) simp
  have s: "Sprintf_d 1 = ''1''"
    by (simp add: Sprintf_d_def decimal.simps)
  from SetUpdaterBalance_records_wei [OF h] obtain reg' where
    "SetUpdaterBalance exampleMetrics ''1000000000000000000'' exampleRegistry
         = Some (Inr reg')"
    "gaugeValue reg' ''drand_updater_balance_wei''
       [Sprintf_d 1, Hex exampleOracle, Hex exampleUpdater]
         = Some (Finite 1000000000000000000)"
    by blast
  then show ?thesis using h s by (simp add: exampleOracle_def exampleUpdater_def)
qed

text \<open>
  Claim C3. The claim is that no metric method panics, whatever its input. On the string
  \<open>abc\<close>, which is not a number, \<open>SetString\<close> returns a nil pointer with \<open>false\<close>;
  \<open>SetUpdaterBalance\<close> drops the flag and calls \<open>Float64\<close> on the nil pointer: a nil
  pointer dereference, on every \<open>Metrics\<close> value and registry.
\<close>

theorem SetUpdaterBalance_malformed_panics:
  "SetUpdaterBalance m ''abc'' reg = Some (Inl NilPointerDereference)"
  by (simp add: SetUpdaterBalance_def SetString_abc Float64_def andThen_def)

subsection \<open>The two versions of the file\<close>

lemma withoutBalance_Set:
  assumes "g \<noteq> Name updaterBalanceOpts"
  shows "map_sum id withoutBalance (WithLabelValues_Set g lvs v reg)
         = WithLabelValues_Set g lvs v (withoutBalance reg)"
  using assms
  by (auto simp add: WithLabelValues_Set_def withoutBalance_def fun_upd_twist
      split: option.splits collector.splits)

lemma withoutBalance_Inc:
  assumes "g \<noteq> Name updaterBalanceOpts"
  shows "map_sum id withoutBalance (WithLabelValues_Inc g lvs reg)
         = WithLabelValues_Inc g lvs (withoutBalance reg)"
  using assms
  by (auto simp add: WithLabelValues_Inc_def withoutBalance_def fun_upd_twist
      split: option.splits collector.splits)

lemma call_simulation:
  "map_sum id withoutBalance (call (metricsOf c oa ua info) u reg)
   = call_v1 (metricsOf_v1 c oa info) u (withoutBalance reg)"
  by (cases u)
    (simp_all add: SetDrandRound_def SetOracleRound_def IncSetRandomnessSuccess_def
      IncSetRandomnessFailure_def SetDrandRound_v1_def SetOracleRound_v1_def
      IncSetRandomnessSuccess_v1_def IncSetRandomnessFailure_v1_def metricsOf_def
      metricsOf_v1_def withoutBalance_Set withoutBalance_Inc opts_defs)

lemma calls_simulation:
  "map_sum id withoutBalance (calls (metricsOf c oa ua info) us reg)
   = calls_v1 (metricsOf_v1 c oa info) us (withoutBalance reg)"
proof (induction us arbitrary: reg)
  case Nil
  show ?case by simp
next
  case (Cons u us)
  show ?case
  proof (cases "call (metricsOf c oa ua info) u reg")
    case (Inl p)
    with call_simulation [of c oa ua info u reg]
    have "call_v1 (metricsOf_v1 c oa info) u (withoutBalance reg) = Inl p" by simp
    with Inl show ?thesis by (simp add: andThen_def)
  next
    case (Inr reg')
    with call_simulation [of c oa ua info u reg]
    have "call_v1 (metricsOf_v1 c oa info) u (withoutBalance reg) = Inr (withoutBalance reg')"
      by simp
    with Inr Cons.IH [of reg'] show ?thesis by (simp add: andThen_def)
  qed
qed

lemma calls_balance_unchanged:
  "calls (metricsOf c oa ua info) us reg = Inr reg'
   \<Longrightarrow> reg' (Name updaterBalanceOpts) = reg (Name updaterBalanceOpts)"
proof (induction us arbitrary: reg)
  case Nil
  then show ?case by simp
next
  case (Cons u us)
  from Cons.prems obtain reg1 where
    1: "call (metricsOf c oa ua info) u reg = Inr reg1"
    and 2: "calls (metricsOf c oa ua info) us reg1 = Inr reg'"
    by (auto simp add: andThen_def split: sum.splits)
  from call_other [OF 1, of "Name updaterBalanceOpts"] Cons.IH [OF 2]
  show ?case by simp
qed

lemma NewMetrics_v1_fresh:
  assumes "\<forall>n \<in> set (butlast metricNames). reg n = None"
  shows "NewMetrics_v1 c oa info reg = Inr (metricsOf_v1 c oa info, registryAfter_v1 info reg)"
  using assms
  by (simp add: NewMetrics_v1_def metricNames_def opts_defs registry_defs
      registryAfter_v1_def metricsOf_v1_def)

lemma NewMetrics_same_panic:
  assumes "\<exists>n \<in> set (butlast metricNames). reg n \<noteq> None"
  shows "\<exists>n. NewMetrics c oa ua info reg = Inl (AlreadyRegistered n)
           \<and> NewMetrics_v1 c oa info reg = Inl (AlreadyRegistered n)"
  using assms
  by (auto simp add: NewMetrics_def NewMetrics_v1_def metricNames_def opts_defs registry_defs
      split: option.splits)

lemma withoutBalance_registryAfter:
  assumes "reg (Name updaterBalanceOpts) = None"
  shows "withoutBalance (registryAfter info reg) = registryAfter_v1 info reg"
proof -
  have "registryAfter_v1 info reg (Name updaterBalanceOpts) = None"
    using assms by (simp add: registryAfter_v1_def opts_defs)
  then show ?thesis
    by (auto simp add: withoutBalance_def registryAfter_def)
qed

text \<open>
  Claim C9. The two versions of \<open>Metrics\<close> in the file agree on what they share. From a
  registry in which the name of the balance gauge is free, a construction followed by
  any sequence of calls of \<open>SetDrandRound\<close>, \<open>SetOracleRound\<close>,
  \<open>IncSetRandomnessSuccess\<close> and \<open>IncSetRandomnessFailure\<close> either panics in both
  versions, with the same panic, or returns in both, and the two registries then hold
  the same collectors under the same names with the same help texts, label names,
  children and values, the \<open>drand_network_info\<close> gauge among them, except that the later
  version has the balance gauge in addition, without children. Whenever the later
  version's construction returns, so does the earlier one's, and from then on the four
  methods of the two values agree call by call, on every pair of registries that differ
  in the balance gauge only.
\<close>

theorem versions_agree_on_shared_interface:
  assumes "reg ''drand_updater_balance_wei'' = None"
  shows "map_sum id withoutBalance (session c oa ua info us reg) = session_v1 c oa info us reg
     \<and> (\<forall>m reg1. NewMetrics c oa ua info reg = Inr (m, reg1) \<longrightarrow>
          (\<exists>m1. NewMetrics_v1 c oa info reg = Inr (m1, withoutBalance reg1)
             \<and> (\<forall>calls' r. map_sum id withoutBalance (calls m calls' r)
                              = calls_v1 m1 calls' (withoutBalance r))))
     \<and> (\<forall>reg2. session c oa ua info us reg = Inr reg2 \<longrightarrow>
          reg2 ''drand_updater_balance_wei'' =
            Some (GaugeVec ''Current balance of the updater address in wei''
              [''chain_id'', ''oracle_address'', ''updater_address''] Map.empty))"
proof -
  have bal: "reg (Name updaterBalanceOpts) = None"
    using assms by (simp add: updaterBalanceOpts_def)
  show ?thesis
  proof (cases "\<forall>n \<in> set (butlast metricNames). reg n = None")
    case True
    with bal have all: "\<forall>n \<in> set metricNames. reg n = None"
      by (simp add: metricNames_def)
    have s2: "session c oa ua info us reg
        = calls (metricsOf c oa ua info) us (registryAfter info reg)"
      by (simp add: session_def NewMetrics_fresh [OF all] andThen_def)
    have s1: "session_v1 c oa info us reg
        = calls_v1 (metricsOf_v1 c oa info) us (registryAfter_v1 info reg)"
      by (simp add: session_v1_def NewMetrics_v1_fresh [OF True] andThen_def)
    have eq: "map_sum id withoutBalance (session c oa ua info us reg)
        = session_v1 c oa info us reg"
      using withoutBalance_registryAfter [of reg info] bal
      by (simp add: s1 s2 calls_simulation)
    have entry: "reg2 ''drand_updater_balance_wei'' =
            Some (GaugeVec ''Current balance of the updater address in wei''
              [''chain_id'', ''oracle_address'', ''updater_address''] Map.empty)"
      if "session c oa ua info us reg = Inr reg2" for reg2
    proof -
      from that s2 have "calls (metricsOf c oa ua info) us (registryAfter info reg) = Inr reg2"
        by simp
      from calls_balance_unchanged [OF this] show ?thesis
        by (simp add: registryAfter_def updaterBalanceOpts_def label_defs)
    qed
    have sim: "\<exists>m1. NewMetrics_v1 c oa info reg = Inr (m1, withoutBalance reg1)
             \<and> (\<forall>calls' r. map_sum id withoutBalance (calls m calls' r)
                              = calls_v1 m1 calls' (withoutBalance r))"
      if "NewMetrics c oa ua info reg = Inr (m, reg1)" for m reg1
    proof -
      from NewMetrics_Inr [OF that]
      have m: "m = metricsOf c oa ua info" and r: "reg1 = registryAfter info reg"
        by simp_all
      have "NewMetrics_v1 c oa info reg = Inr (metricsOf_v1 c oa info, withoutBalance reg1)"
        using withoutBalance_registryAfter [of reg info] bal
        by (simp add: NewMetrics_v1_fresh [OF True] r)
      with calls_simulation [of c oa ua info] show ?thesis unfolding m by blast
    qed
    from eq entry sim show ?thesis by blast
  next
    case False
    then have "\<exists>n \<in> set (butlast metricNames). reg n \<noteq> None" by blast
    from NewMetrics_same_panic [OF this, of c oa ua info] obtain n where
      "NewMetrics c oa ua info reg = Inl (AlreadyRegistered n)"
      "NewMetrics_v1 c oa info reg = Inl (AlreadyRegistered n)"
      by blast
    then show ?thesis by (simp add: session_def session_v1_def andThen_def)
  qed
qed

theorem versions_agree_on_shared_interface_witness:
  "(Map.empty :: registry) ''drand_updater_balance_wei'' = None
   \<and> map_sum id withoutBalance
       (session 1 exampleOracle exampleUpdater exampleInfo
          [DrandRound (Finite 7), Success, OracleRound (Finite 7), Failure, Success] Map.empty)
     = session_v1 1 exampleOracle exampleInfo
          [DrandRound (Finite 7), Success, OracleRound (Finite 7), Failure, Success] Map.empty"
  using versions_agree_on_shared_interface
    [of Map.empty 1 exampleOracle exampleUpdater exampleInfo
        "[DrandRound (Finite 7), Success, OracleRound (Finite 7), Failure, Success]"]
  by simp

subsection \<open>The methods return on a constructed value\<close>

lemma registered_registryAfter: "registered (registryAfter info reg)"
  by (simp add: registered_def isGaugeVec_def isCounterVec_def registryAfter_def
      registryAfter_v1_def opts_defs)

lemma Set_registered:
  assumes "isGaugeVec reg g (length lvs)"
  shows "\<exists>reg'. WithLabelValues_Set g lvs v reg = Inr reg'
     \<and> (\<forall>n k. isGaugeVec reg' n k = isGaugeVec reg n k)
     \<and> (\<forall>n k. isCounterVec reg' n k = isCounterVec reg n k)"
  using assms
  by (auto simp add: WithLabelValues_Set_def isGaugeVec_def isCounterVec_def
      split: option.splits collector.splits)

lemma Inc_registered:
  assumes "isCounterVec reg g (length lvs)"
  shows "\<exists>reg'. WithLabelValues_Inc g lvs reg = Inr reg'
     \<and> (\<forall>n k. isGaugeVec reg' n k = isGaugeVec reg n k)
     \<and> (\<forall>n k. isCounterVec reg' n k = isCounterVec reg n k)"
  using assms
  by (auto simp add: WithLabelValues_Inc_def isGaugeVec_def isCounterVec_def
      split: option.splits collector.splits)

lemma call_returns:
  assumes "registered reg"
  shows "\<exists>reg'. call (metricsOf c oa ua info) u reg = Inr reg' \<and> registered reg'"
proof (cases u)
  case (DrandRound x)
  from assms have "isGaugeVec reg (Name drandRoundOpts) (length [HashString info])"
    by (simp add: registered_def eval_nat_numeral)
  from Set_registered [OF this, of x] assms DrandRound show ?thesis
    by (auto simp add: SetDrandRound_def metricsOf_def registered_def)
next
  case (OracleRound x)
  from assms have "isGaugeVec reg (Name oracleRoundOpts) (length [Sprintf_d c, Hex oa])"
    by (simp add: registered_def eval_nat_numeral)
  from Set_registered [OF this, of x] assms OracleRound show ?thesis
    by (auto simp add: SetOracleRound_def metricsOf_def registered_def)
next
  case Success
  from assms have "isCounterVec reg (Name successOpts) (length [Sprintf_d c, Hex oa])"
    by (simp add: registered_def eval_nat_numeral)
  from Inc_registered [OF this] assms Success show ?thesis
    by (auto simp add: IncSetRandomnessSuccess_def metricsOf_def registered_def)
next
  case Failure
  from assms have "isCounterVec reg (Name failureOpts) (length [Sprintf_d c, Hex oa])"
    by (simp add: registered_def eval_nat_numeral)
  from Inc_registered [OF this] assms Failure show ?thesis
    by (auto simp add: IncSetRandomnessFailure_def metricsOf_def registered_def)
qed

lemma calls_return:
  assumes "registered reg"
  shows "\<exists>reg'. calls (metricsOf c oa ua info) us reg = Inr reg' \<and> registered reg'"
  using assms
proof (induction us arbitrary: reg)
  case Nil
  then show ?case by simp
next
  case (Cons u us)
  from call_returns [OF Cons.prems, of c oa ua info u] obtain reg1 where
    1: "call (metricsOf c oa ua info) u reg = Inr reg1" and 2: "registered reg1"
    by blast
  from Cons.IH [OF 2] 1 show ?case by (simp add: andThen_def)
qed

lemma session_returns:
  assumes "\<forall>n \<in> set metricNames. reg n = None"
  shows "\<exists>reg'. session c oa ua info us reg = Inr reg'"
  using calls_return [OF registered_registryAfter, of c oa ua info us info reg]
  by (auto simp add: session_def NewMetrics_fresh [OF assms] andThen_def)

lemma SetUpdaterBalance_digits_returns:
  assumes "registered reg" and "wei \<noteq> []" and "list_all isDecimalDigit wei"
    and "bitlen (digitsValue wei) \<le> MaxExp"
  shows "\<exists>reg'. SetUpdaterBalance (metricsOf c oa ua info) wei reg = Some (Inr reg')
     \<and> registered reg'"
proof -
  from assms(1) have
    g: "isGaugeVec reg (Name updaterBalanceOpts) (length [Sprintf_d c, Hex oa, Hex ua])"
    by (simp add: registered_def eval_nat_numeral)
  have "\<exists>b. Float64 (Some (IntFloat (roundToEven 64 (digitsValue wei)))) = Inr b"
    by (simp add: Float64_def Let_def)
  then obtain b where b: "Float64 (Some (IntFloat (roundToEven 64 (digitsValue wei)))) = Inr b"
    by blast
  from Set_registered [OF g, of b] assms show ?thesis
    by (auto simp add: SetUpdaterBalance_def SetString_def b andThen_def metricsOf_def
        registered_def)
qed

section \<open>Properties of main\<close>

subsection \<open>Start-up\<close>

lemma parseKey_signer:
  "parseKey (SignerPrivateKey exampleConfig) = Inr (PrivateKey 1)"
  by (simp add: exampleConfig_def parseKey_def TrimPrefix_def HasPrefix_def HexToECDSA_def
      fromHexChar_def ToECDSA_def SetBytes_def secp256k1N_def)

lemma parseKey_sender:
  "parseKey (SenderPrivateKey exampleConfig) = Inr (PrivateKey 2)"
  by (simp add: exampleConfig_def parseKey_def TrimPrefix_def HasPrefix_def HexToECDSA_def
      fromHexChar_def ToECDSA_def SetBytes_def secp256k1N_def)

lemma DecodeString_chainHash:
  "DecodeString (ChainHash exampleConfig) = ([0x89, 0x90, 0xe7, 0xa9], None)"
  by (simp add: exampleConfig_def fromHexChar_def)

lemma startup_fatal_iff: "fatal (startup w) \<longleftrightarrow> configError w \<or> collaboratorError w"
  by (auto simp add: startup_def fatal_def configError_def collaboratorError_def
      split: option.splits prod.splits sum.splits hex_error.splits)

lemma startup_fatal_no_task: "fatal (startup w) \<Longrightarrow> Go t \<notin> set (startup w)"
  by (auto simp add: startup_def fatal_def
      split: option.splits prod.splits sum.splits if_splits)

lemma startup_live_tasks:
  "\<not> fatal (startup w) \<Longrightarrow>
     Go UpdaterLoop \<in> set (startup w) \<and> Go HealthServer \<in> set (startup w)
     \<and> Go MetricsServer \<in> set (startup w)"
  by (auto simp add: startup_def fatal_def
      split: option.splits prod.splits sum.splits if_splits)


text \<open>
  A world whose configuration is well-formed and whose keys are valid, but whose RPC
  endpoint cannot be dialled: start-up is fatal all the same.
\<close>

theorem network_failure_is_fatal_at_startup:
  "\<not> configError unreachableWorld \<and> fatal (startup unreachableWorld)"
proof -
  have c: "\<not> configError unreachableWorld"
    by (simp add: configError_def unreachableWorld_def exampleWorld_def parseKey_signer
        parseKey_sender DecodeString_chainHash)
  have "collaboratorError unreachableWorld"
    by (simp add: collaboratorError_def unreachableWorld_def)
  with c show ?thesis by (simp add: startup_fatal_iff)
qed

text \<open>
  Claim C4, as the code has it. A configuration that \<open>envconfig\<close> rejects, a chain hash
  that is not hexadecimal and a signer or sender key that does not parse each end the
  process with \<open>log.Fatal\<close> before any task is started, the Updater loop among them.
  They are not the only fatal errors of start-up: failing to create the drand client,
  the RPC client, the contract binding or the updater is fatal too, and these eight are
  all. A start-up that is not fatal starts the Updater loop.
\<close>

theorem startup_fatal_errors:
  "(configError w \<longrightarrow> fatal (startup w))
   \<and> (fatal (startup w) \<longleftrightarrow> configError w \<or> collaboratorError w)
   \<and> (fatal (startup w) \<longrightarrow> (\<forall>t. Go t \<notin> set (startup w)))
   \<and> (\<not> fatal (startup w) \<longrightarrow> Go UpdaterLoop \<in> set (startup w))"
  using startup_fatal_iff [of w] startup_fatal_no_task [of w] startup_live_tasks [of w]
  by blast

theorem startup_fatal_errors_witness:
  "(configError (exampleWorld\<lparr>envconfig_Process := None\<rparr>)
     \<and> fatal (startup (exampleWorld\<lparr>envconfig_Process := None\<rparr>))
     \<and> Go UpdaterLoop \<notin> set (startup (exampleWorld\<lparr>envconfig_Process := None\<rparr>)))
   \<and> (\<not> fatal (startup exampleWorld) \<and> Go UpdaterLoop \<in> set (startup exampleWorld))"
proof -
  have c: "configError (exampleWorld\<lparr>envconfig_Process := None\<rparr>)"
    by (simp add: configError_def)
  have n: "\<not> configError exampleWorld \<and> \<not> collaboratorError exampleWorld"
    by (simp add: configError_def collaboratorError_def exampleWorld_def parseKey_signer
        parseKey_sender DecodeString_chainHash)
  from startup_fatal_errors [of "exampleWorld\<lparr>envconfig_Process := None\<rparr>"]
    startup_fatal_errors [of exampleWorld] c n
  show ?thesis by blast
qed

subsection \<open>Private keys\<close>

lemma TrimPrefix_0x: "TrimPrefix (CHR ''0'' # CHR ''x'' # k) ''0x'' = k"
  by (simp add: TrimPrefix_def HasPrefix_def)

lemma fromHexChar_x: "fromHexChar CHR ''x'' = None"
  by (simp add: fromHexChar_def)

lemma TrimPrefix_hex:
  assumes "isHexString k"
  shows "TrimPrefix k ''0x'' = k"
proof (cases "HasPrefix k ''0x''")
  case True
  then obtain rest where "k = CHR ''0'' # CHR ''x'' # rest"
    by (cases k; cases "tl k") (auto simp add: HasPrefix_def)
  with assms fromHexChar_x show ?thesis by (simp add: isHexString_def)
next
  case False
  then show ?thesis by (simp add: TrimPrefix_def)
qed

text \<open>
  Claim C10. For every string \<open>k\<close> of hexadecimal digits, the key parsed from \<open>0x\<close>
  followed by \<open>k\<close> is the key parsed from \<open>k\<close>, error or key alike, and so is
  everything computed from the key, the address among it.
\<close>

theorem key_prefix_0x_optional:
  assumes "isHexString k"
  shows "parseKey (''0x'' @ k) = parseKey k
     \<and> (\<forall>address. map_sum id address (parseKey (''0x'' @ k))
                    = map_sum id address (parseKey k))"
  using TrimPrefix_hex [OF assms] by (simp add: parseKey_def TrimPrefix_0x)

theorem key_prefix_0x_optional_witness:
  "isHexString exampleKey
   \<and> parseKey (''0x'' @ exampleKey) = parseKey exampleKey
   \<and> parseKey exampleKey = Inr (PrivateKey 1)"
proof -
  have h: "isHexString exampleKey"
    by (simp add: isHexString_def exampleKey_def fromHexChar_def)
  have v: "parseKey exampleKey = Inr (PrivateKey 1)"
    by (simp add: exampleKey_def parseKey_def TrimPrefix_def HasPrefix_def HexToECDSA_def
      fromHexChar_def ToECDSA_def SetBytes_def secp256k1N_def)
  from key_prefix_0x_optional [OF h]
  have "parseKey (''0x'' @ exampleKey) = parseKey exampleKey" by blast
  with h v show ?thesis by blast
qed

subsection \<open>The health check\<close>



section \<open>Properties of the catch-up\<close>










section \<open>Properties of the error group\<close>














end
